theory Spec2Isabelle
  imports Complex_Main
begin

section \<open>The effective-potential evaluator (the patch of \<^verbatim>\<open>rks.py\<close>)\<close>

subsection \<open>Values\<close>

text \<open>
  The scalar energy \<^verbatim>\<open>exc\<close> is a floating-point number that the patch inspects with
  \<^verbatim>\<open>np.isnan\<close>. A float is a finite number, one of the two infinities, or NaN.
  Finite numbers are read as reals: rounding is outside the model.
\<close>

datatype flt = Fin real | PInf | NInf | NaN

text \<open>\<^verbatim>\<open>np.isnan(x)\<close>: true for NaN only.\<close>

definition isnan :: "flt \<Rightarrow> bool" where
  "isnan x = (x = NaN)"

text \<open>A finite number, in the sense of \<^verbatim>\<open>np.isfinite\<close>: neither NaN nor an infinity.\<close>

fun isfinite :: "flt \<Rightarrow> bool" where
  "isfinite (Fin r) = True"
| "isfinite PInf = False"
| "isfinite NInf = False"
| "isfinite NaN = False"

text \<open>
  A matrix is the list of its rows. The density matrix, the potential and the gradient
  of the network energy are arrays of two dimensions (one matrix) or of three (a stack
  of matrices, one per leading index). Their entries are read as reals: the model
  covers arrays of finite entries, in exact arithmetic.
\<close>

type_synonym matrix = "real list list"

datatype array = Mat (matrix_of: matrix) | Stack (slices: "matrix list")

fun ndim :: "array \<Rightarrow> nat" where
  "ndim (Mat m) = 2"
| "ndim (Stack ms) = 3"

definition ncols :: "matrix \<Rightarrow> nat" where
  "ncols A = (case A of [] \<Rightarrow> 0 | r # rs \<Rightarrow> length r)"

text \<open>\<^verbatim>\<open>dm.shape[-1]\<close>: the length of the last axis.\<close>

fun last_dim :: "array \<Rightarrow> nat" where
  "last_dim (Mat m) = ncols m"
| "last_dim (Stack ms) = (case ms of [] \<Rightarrow> 0 | m # rest \<Rightarrow> ncols m)"

text \<open>\<^verbatim>\<open>np.eye(n)\<close>.\<close>

definition eye :: "nat \<Rightarrow> matrix" where
  "eye n = map (\<lambda>i. map (\<lambda>j. if i = j then 1 else 0) [0..<n]) [0..<n]"

text \<open>\<^verbatim>\<open>A.T\<close> for a matrix.\<close>

definition mat_T :: "matrix \<Rightarrow> matrix" where
  "mat_T A = map (\<lambda>j. map (\<lambda>row. row ! j) A) [0..<ncols A]"

text \<open>
  What the patched code can raise: an exception of one of the external callables (the
  type \<open>'e\<close> puts no restriction on it), the exception of an array operation whose
  shapes do not fit, the \<^verbatim>\<open>ValueError\<close> of an unpacking of the wrong length, and the
  \<^verbatim>\<open>IndexError\<close> of an index out of range.
\<close>

datatype 'e error = Raised 'e | ShapeError | ValueError | IndexError

definition dot :: "real list \<Rightarrow> real list \<Rightarrow> real" where
  "dot xs ys = sum_list (map2 (*) xs ys)"

text \<open>
  \<^verbatim>\<open>np.matmul(A, B)\<close> on matrices: the inner dimensions must agree, and entry
  \<open>(i, l)\<close> is the product of row \<open>i\<close> of \<open>A\<close> with column \<open>l\<close> of \<open>B\<close>.
\<close>

definition matmul :: "matrix \<Rightarrow> matrix \<Rightarrow> 'e error + matrix" where
  "matmul A B =
     (if list_all (\<lambda>row. length row = length B) A
      then Inr (map (\<lambda>row. map (\<lambda>l. dot row (map (\<lambda>r. r ! l) B)) [0..<ncols B]) A)
      else Inl ShapeError)"

text \<open>
  \<^verbatim>\<open>np.einsum('ij,xjk,kl->xil', L, V, M)\<close>: for every leading index \<open>x\<close>, entry
  \<open>(i, l)\<close> is the sum over the repeated indices \<open>j\<close> and \<open>k\<close> of
  \<open>L[i,j] * V[x,j,k] * M[k,l]\<close>; the axes named by the same letter must have the same
  length.
\<close>

definition einsum_ij_xjk_kl :: "matrix \<Rightarrow> matrix list \<Rightarrow> matrix \<Rightarrow> 'e error + matrix list" where
  "einsum_ij_xjk_kl L V M =
     (if list_all (\<lambda>row. list_all (\<lambda>v. length row = length v) V) L
         \<and> list_all (\<lambda>v. list_all (\<lambda>row. length row = length M) v) V
      then Inr (map (\<lambda>v.
             map (\<lambda>i.
               map (\<lambda>l. \<Sum>j\<leftarrow>[0..<length v]. \<Sum>k\<leftarrow>[0..<length M].
                       L ! i ! j * v ! j ! k * M ! k ! l)
                 [0..<ncols M])
               [0..<length L])
             V)
      else Inl ShapeError)"

subsection \<open>The effective-potential object and the trace of effects\<close>

text \<open>
  The object \<^verbatim>\<open>vxc\<close> that \<^verbatim>\<open>get_veff\<close> fills has the fields \<^verbatim>\<open>exc\<close> and \<^verbatim>\<open>vxc\<close>;
  whatever else it carries is the record's extension.
\<close>

record vxc_obj =
  exc :: flt
  vxc :: array

text \<open>What the evaluator does to the outside: the external calls and the printed lines.\<close>

datatype event = Call_nr_rks array | Call_network_eval array | Print string

subsection \<open>The patched fragment\<close>

text \<open>
  Lines 22 to 25 of the patch: the transform \<open>L\<close> applied to the raw gradient on both
  sides, by \<^verbatim>\<open>einsum\<close> when \<^verbatim>\<open>vxcG.ndim > 2\<close> and by two \<^verbatim>\<open>matmul\<close> otherwise.
\<close>

definition apply_transform :: "matrix \<Rightarrow> array \<Rightarrow> 'e error + array" where
  "apply_transform L vxcG =
     (if ndim vxcG > 2 then
        (case einsum_ij_xjk_kl L (slices vxcG) (mat_T L) of
           Inl err \<Rightarrow> Inl err
         | Inr ws \<Rightarrow> Inr (Stack ws))
      else
        (case matmul (matrix_of vxcG) (mat_T L) of
           Inl err \<Rightarrow> Inl err
         | Inr w \<Rightarrow>
             (case matmul L w of
                Inl err \<Rightarrow> Inl err
              | Inr u \<Rightarrow> Inr (Mat u))))"

text \<open>Line 19, \<^verbatim>\<open>L = np.eye(dm.shape[-1])\<close>, and the transform with that \<open>L\<close>.\<close>

definition restore_symmetry :: "array \<Rightarrow> array \<Rightarrow> 'e error + array" where
  "restore_symmetry dm vxcG = (let L = eye (last_dim dm) in apply_transform L vxcG)"

text \<open>
  \<^verbatim>\<open>get_veff\<close> from the primary evaluation on. \<open>nr_rks\<close> is \<^verbatim>\<open>ni.nr_rks\<close> with the
  solver's context applied (it returns \<open>(n, exc, vxc)\<close>), \<open>network_vg\<close> is
  \<^verbatim>\<open>jax.value_and_grad(ks.network_eval)\<close>, \<open>network_verbose\<close> is \<^verbatim>\<open>ks.network.verbose\<close>.
  The result is the trace of effects, and either the exception that ends the call or the
  local \<open>n\<close> with the object as the fragment leaves it.
\<close>

definition get_veff ::
  "(array \<Rightarrow> 'e + flt \<times> flt \<times> array) \<Rightarrow> (array \<Rightarrow> 'e + flt \<times> array) \<Rightarrow> bool \<Rightarrow>
     array \<Rightarrow> 'a vxc_obj_scheme \<Rightarrow> event list \<times> ('e error + flt \<times> 'a vxc_obj_scheme)" where
  "get_veff nr_rks network_vg network_verbose dm obj =
     (case nr_rks dm of
        Inl e \<Rightarrow> ([Call_nr_rks dm], Inl (Raised e))
      | Inr (n, exc_p, vxc_p) \<Rightarrow>
          (let obj1 = obj\<lparr>exc := exc_p, vxc := vxc_p\<rparr> in
           if isnan (exc obj1) then
             (let tr1 = [Call_nr_rks dm,
                         Print ''RKSAnalyzer.get_veff; nans in exc, trying with network'',
                         Call_network_eval dm] in
              case network_vg dm of
                Inl e \<Rightarrow> (tr1, Inl (Raised e))
              | Inr (excG, vxcG) \<Rightarrow>
                  (let tr2 = tr1 @ (if network_verbose then [Print ''restoring vxc symmetry''] else []) in
                   case restore_symmetry dm vxcG of
                     Inl err \<Rightarrow> (tr2, Inl err)
                   | Inr vxcG' \<Rightarrow> (tr2, Inr (n, obj1\<lparr>vxc := vxcG', exc := excG\<rparr>))))
           else ([Call_nr_rks dm], Inr (n, obj1))))"

text \<open>How often the trace calls the network.\<close>

definition network_calls :: "event list \<Rightarrow> nat" where
  "network_calls tr = length (filter (\<lambda>ev. case ev of Call_network_eval d \<Rightarrow> True | _ \<Rightarrow> False) tr)"

text \<open>\<^verbatim>\<open>vxc == transpose(vxc)\<close>, on the last two axes.\<close>

fun symmetric :: "array \<Rightarrow> bool" where
  "symmetric (Mat m) = (mat_T m = m)"
| "symmetric (Stack ms) = list_all (\<lambda>m. mat_T m = m) ms"

section \<open>The grid-kernel dispatcher (the patch of \<^verbatim>\<open>numint.py\<close>)\<close>

subsection \<open>Numbers that carry a derivative\<close>

text \<open>
  The values on the grid are traced for differentiation: a number is its value together
  with its derivative along a direction of the input density matrix. Sums and products
  follow the sum and product rules. \<^verbatim>\<open>stop_grad\<close> keeps the value and drops the
  derivative. Values are reals: rounding is outside the model.
\<close>

datatype dual = Dual (primal: real) (tangent: real)

instantiation dual :: "{comm_monoid_add, times}"
begin

definition zero_dual :: dual where
  "zero_dual = Dual 0 0"

definition plus_dual :: "dual \<Rightarrow> dual \<Rightarrow> dual" where
  "plus_dual a b = Dual (primal a + primal b) (tangent a + tangent b)"

definition times_dual :: "dual \<Rightarrow> dual \<Rightarrow> dual" where
  "times_dual a b = Dual (primal a * primal b) (tangent a * primal b + primal a * tangent b)"

instance
  by standard (simp_all add: zero_dual_def plus_dual_def)

end

definition stop_grad :: "dual \<Rightarrow> dual" where
  "stop_grad d = Dual (primal d) 0"

subsection \<open>The evaluator and its two call forms\<close>

datatype level = LDA | GGA | MGGA

text \<open>The keyword arguments both call forms pass.\<close>

record kwargs =
  spin :: nat
  relativity :: nat
  deriv :: nat
  verbose :: nat

text \<open>
  A call of \<^verbatim>\<open>ni.eval_xc\<close>: the extended form passes \<^verbatim>\<open>ao\<close>, \<^verbatim>\<open>weight\<close> and
  \<^verbatim>\<open>coords\<close> after \<^verbatim>\<open>rho\<close>, the minimal form does not.
\<close>

datatype ('ao, 'c) xc_call =
  Extended string "dual list list" 'ao "dual list" 'c kwargs
| Minimal string "dual list list" kwargs

text \<open>
  The numerical-integration object \<^verbatim>\<open>ni\<close> with the arguments of the enclosing
  function that the patched lines read. \<^verbatim>\<open>eval_xc\<close> raises (an exception of type
  \<open>'e\<close>, any whatsoever) or returns a tuple whose first two slots are \<open>exc\<close>, the
  energy density on the points of the block, and \<open>vxc\<close>, the sequence of the
  potential's components; the slots after them are the third component. \<^verbatim>\<open>make_rho\<close>
  returns the density on the block: row 0 is the density itself. \<open>rel\<close> and \<open>verb\<close>
  are the arguments \<^verbatim>\<open>relativity\<close> and \<^verbatim>\<open>verbose\<close> of the enclosing function.
\<close>

record ('e, 'ao, 'm, 'c, 'v, 'x) numint =
  eval_xc :: "('ao, 'c) xc_call \<Rightarrow> 'e + dual list \<times> 'v list \<times> 'x list"
  make_rho :: "nat \<Rightarrow> 'ao \<Rightarrow> 'm \<Rightarrow> level \<Rightarrow> dual list list"
  xc_code :: string
  rel :: nat
  verb :: nat

text \<open>A block of the grid, as the host's block loop yields it.\<close>

record ('ao, 'm, 'c) block =
  ao :: 'ao
  mask :: 'm
  weight :: "dual list"
  coords :: 'c

text \<open>The effects of the dispatcher: the line it prints and the calls of the evaluator.\<close>

datatype ('ao, 'c) xc_event = Print_block_loop level | Call_eval_xc "('ao, 'c) xc_call"

subsection \<open>The try block\<close>

text \<open>
  The same in the three branches, up to the tag of the printed line: print, call the
  extended form and keep the first two slots; on any exception (the handler is a bare
  \<^verbatim>\<open>except:\<close>) call the minimal form and keep the first two slots.
\<close>

definition extended_call ::
  "('e, 'ao, 'm, 'c, 'v, 'x) numint \<Rightarrow> dual list list \<Rightarrow> ('ao, 'm, 'c) block \<Rightarrow> ('ao, 'c) xc_call" where
  "extended_call ni rho b =
     Extended (xc_code ni) rho (ao b) (weight b) (coords b)
       \<lparr>spin = 0, relativity = rel ni, deriv = 1, verbose = verb ni\<rparr>"

definition minimal_call ::
  "('e, 'ao, 'm, 'c, 'v, 'x) numint \<Rightarrow> dual list list \<Rightarrow> ('ao, 'c) xc_call" where
  "minimal_call ni rho =
     Minimal (xc_code ni) rho \<lparr>spin = 0, relativity = rel ni, deriv = 1, verbose = verb ni\<rparr>"

definition eval_xc_try ::
  "('e, 'ao, 'm, 'c, 'v, 'x) numint \<Rightarrow> level \<Rightarrow> dual list list \<Rightarrow> ('ao, 'm, 'c) block \<Rightarrow>
     ('ao, 'c) xc_event list \<times> ('e error + dual list \<times> 'v list)" where
  "eval_xc_try ni lvl rho b =
     (case eval_xc ni (extended_call ni rho b) of
        Inr (exc_b, vxc_b, more_slots) \<Rightarrow>
          ([Print_block_loop lvl, Call_eval_xc (extended_call ni rho b)], Inr (exc_b, vxc_b))
      | Inl e \<Rightarrow>
          ([Print_block_loop lvl, Call_eval_xc (extended_call ni rho b),
            Call_eval_xc (minimal_call ni rho)],
           case eval_xc ni (minimal_call ni rho) of
             Inr (exc_b, vxc_b, more_slots) \<Rightarrow> Inr (exc_b, vxc_b)
           | Inl e' \<Rightarrow> Inl (Raised e')))"

subsection \<open>The statements after the try block\<close>

text \<open>
  \<^verbatim>\<open>rho[0] * weight\<close>: row 0 of \<^verbatim>\<open>rho\<close> times the weights, point by point; an array of
  length one is broadcast.
\<close>

definition times_arrays :: "dual list \<Rightarrow> dual list \<Rightarrow> 'e error + dual list" where
  "times_arrays xs ys =
     (if length xs = length ys then Inr (map2 (*) xs ys)
      else if length xs = 1 then Inr (map (\<lambda>y. hd xs * y) ys)
      else if length ys = 1 then Inr (map (\<lambda>x. x * hd ys) xs)
      else Inl ShapeError)"

definition density_times_weight :: "dual list list \<Rightarrow> dual list \<Rightarrow> 'e error + dual list" where
  "density_times_weight rho w =
     (case rho of [] \<Rightarrow> Inl IndexError | rho0 # rows \<Rightarrow> times_arrays rho0 w)"

text \<open>\<^verbatim>\<open>np.dot(den, exc)\<close> on two vectors: they must have the same length.\<close>

definition dot_dual :: "dual list \<Rightarrow> dual list \<Rightarrow> 'e error + dual" where
  "dot_dual xs ys =
     (if length xs = length ys then Inr (sum_list (map2 (*) xs ys)) else Inl ShapeError)"

text \<open>The LDA branch, to \<^verbatim>\<open>vrho = vxc[0]\<close>: it yields \<open>(exc, vxc, vrho)\<close>.\<close>

definition lda_body ::
  "('e, 'ao, 'm, 'c, 'v, 'x) numint \<Rightarrow> nat \<Rightarrow> ('ao, 'm, 'c) block \<Rightarrow>
     ('ao, 'c) xc_event list \<times> ('e error + dual list \<times> 'v list \<times> 'v)" where
  "lda_body ni idm b =
     (let rho = make_rho ni idm (ao b) (mask b) LDA in
      case eval_xc_try ni LDA rho b of
        (tr, Inl err) \<Rightarrow> (tr, Inl err)
      | (tr, Inr (exc_b, vxc_b)) \<Rightarrow>
          (case vxc_b of
             [] \<Rightarrow> (tr, Inl IndexError)
           | vrho # others \<Rightarrow> (tr, Inr (exc_b, vxc_b, vrho))))"

text \<open>The GGA branch, to \<^verbatim>\<open>den = rho[0] * weight\<close>: it yields \<open>(exc, vxc, den)\<close>.\<close>

definition gga_body ::
  "('e, 'ao, 'm, 'c, 'v, 'x) numint \<Rightarrow> nat \<Rightarrow> ('ao, 'm, 'c) block \<Rightarrow>
     ('ao, 'c) xc_event list \<times> ('e error + dual list \<times> 'v list \<times> dual list)" where
  "gga_body ni idm b =
     (let rho = make_rho ni idm (ao b) (mask b) GGA in
      case eval_xc_try ni GGA rho b of
        (tr, Inl err) \<Rightarrow> (tr, Inl err)
      | (tr, Inr (exc_b, vxc_b)) \<Rightarrow>
          (case density_times_weight rho (weight b) of
             Inl err \<Rightarrow> (tr, Inl err)
           | Inr den \<Rightarrow> (tr, Inr (exc_b, vxc_b, den))))"

text \<open>
  The MGGA branch, to \<^verbatim>\<open>excsum[idm] += np.dot(den, exc)\<close>. It takes the accumulators
  \<open>(nelec, excsum)\<close> and yields the four components it unpacks from \<^verbatim>\<open>vxc[:4]\<close>,
  \<open>exc\<close>, \<open>den\<close> and the accumulators updated. An augmented assignment reads its
  target before it evaluates its right-hand side.
\<close>

definition mgga_body ::
  "('e, 'ao, 'm, 'c, 'v, 'x) numint \<Rightarrow> nat \<Rightarrow> ('ao, 'm, 'c) block \<Rightarrow> dual list \<times> dual list \<Rightarrow>
     ('ao, 'c) xc_event list \<times>
       ('e error + ('v \<times> 'v \<times> 'v \<times> 'v) \<times> dual list \<times> dual list \<times> dual list \<times> dual list)" where
  "mgga_body ni idm b acc =
     (let rho = make_rho ni idm (ao b) (mask b) MGGA; nelec = fst acc; excsum = snd acc in
      case eval_xc_try ni MGGA rho b of
        (tr, Inl err) \<Rightarrow> (tr, Inl err)
      | (tr, Inr (exc_b, vxc_b)) \<Rightarrow>
          (case take 4 vxc_b of
             [vrho, vsigma, vlapl, vtau] \<Rightarrow>
               (case density_times_weight rho (weight b) of
                  Inl err \<Rightarrow> (tr, Inl err)
                | Inr den \<Rightarrow>
                    if idm < length nelec then
                      (let nelec' = nelec[idm := nelec ! idm + sum_list (map stop_grad den)] in
                       if idm < length excsum then
                         (case dot_dual den exc_b of
                            Inl err \<Rightarrow> (tr, Inl err)
                          | Inr d \<Rightarrow>
                              (tr, Inr ((vrho, vsigma, vlapl, vtau), exc_b, den,
                                        nelec', excsum[idm := excsum ! idm + d])))
                       else (tr, Inl IndexError))
                    else (tr, Inl IndexError))
           | _ \<Rightarrow> (tr, Inl ValueError)))"

subsection \<open>The loops around the MGGA branch\<close>




section \<open>Notions the properties are stated with\<close>

subsection \<open>Shapes and the transform in the words of the specification\<close>

text \<open>An \<open>n\<close> by \<open>n\<close> matrix, and an array whose matrices all are \<open>n\<close> by \<open>n\<close>.\<close>

definition square :: "nat \<Rightarrow> matrix \<Rightarrow> bool" where
  "square n m = (length m = n \<and> list_all (\<lambda>row. length row = n) m)"

fun conforms :: "nat \<Rightarrow> array \<Rightarrow> bool" where
  "conforms n (Mat m) = square n m"
| "conforms n (Stack ms) = list_all (square n) ms"

text \<open>The matrix product, and \<open>L \<cdot> v \<cdot> L\<^sup>T\<close>, for one matrix and for each matrix of a stack.\<close>

definition mat_prod :: "matrix \<Rightarrow> matrix \<Rightarrow> matrix" where
  "mat_prod A B = map (\<lambda>row. map (\<lambda>l. dot row (map (\<lambda>r. r ! l) B)) [0..<ncols B]) A"

definition two_sided :: "matrix \<Rightarrow> matrix \<Rightarrow> matrix" where
  "two_sided L v = mat_prod L (mat_prod v (mat_T L))"

fun spec_symmetrize :: "matrix \<Rightarrow> array \<Rightarrow> array" where
  "spec_symmetrize L (Mat v) = Mat (two_sided L v)"
| "spec_symmetrize L (Stack vs) = Stack (map (two_sided L) vs)"

subsection \<open>Calls of the evaluator in a trace\<close>

definition calls :: "('ao, 'c) xc_event list \<Rightarrow> ('ao, 'c) xc_call list" where
  "calls tr = concat (map (\<lambda>ev. case ev of Call_eval_xc c \<Rightarrow> [c] | Print_block_loop l \<Rightarrow> []) tr)"


text \<open>The outcome of one call, cut to its first two slots.\<close>

definition first_two :: "'e + dual list \<times> 'v list \<times> 'x list \<Rightarrow> 'e error + dual list \<times> 'v list" where
  "first_two r =
     (case r of Inr (exc_b, vxc_b, more_slots) \<Rightarrow> Inr (exc_b, vxc_b) | Inl e \<Rightarrow> Inl (Raised e))"

text \<open>The same integration object with an evaluator that returns no slot after the second.\<close>

definition discard_slots ::
  "('e, 'ao, 'm, 'c, 'v, 'x) numint \<Rightarrow> ('e, 'ao, 'm, 'c, 'v, 'x) numint" where
  "discard_slots ni =
     ni\<lparr>eval_xc := (\<lambda>c. case eval_xc ni c of
                          Inr (exc_b, vxc_b, more_slots) \<Rightarrow> Inr (exc_b, vxc_b, [])
                        | Inl e \<Rightarrow> Inl e)\<rparr>"

text \<open>
  Modelled from the spec: what the GGA branch extracts from \<open>vxc\<close>. The lines of the
  patch keep \<open>vxc\<close> whole in that branch and hand it to the host's helper, whose body is
  not part of the patch; the spec has \<open>vrho\<close> extracted always and \<open>vsigma\<close> alone in
  addition for GGA, which are the first two components.
\<close>

definition gga_components :: "'v list \<Rightarrow> 'e error + 'v \<times> 'v" where
  "gga_components vxc_b =
     (case take 2 vxc_b of [vrho, vsigma] \<Rightarrow> Inr (vrho, vsigma) | _ \<Rightarrow> Inl ValueError)"

subsection \<open>The contribution of one block\<close>

text \<open>
  \<open>rho[0] * weight\<close> and \<open>exc\<close> on a block for the density set \<open>idm\<close>, at the MGGA level
  (empty where the code raises), and the two sums the block adds to the accumulators.
\<close>

definition den_of :: "('e, 'ao, 'm, 'c, 'v, 'x) numint \<Rightarrow> nat \<Rightarrow> ('ao, 'm, 'c) block \<Rightarrow> dual list" where
  "den_of ni idm b =
     (case (density_times_weight (make_rho ni idm (ao b) (mask b) MGGA) (weight b)
              :: 'e error + dual list) of
        Inr den \<Rightarrow> den | Inl err \<Rightarrow> [])"

definition exc_of :: "('e, 'ao, 'm, 'c, 'v, 'x) numint \<Rightarrow> nat \<Rightarrow> ('ao, 'm, 'c) block \<Rightarrow> dual list" where
  "exc_of ni idm b =
     (case snd (eval_xc_try ni MGGA (make_rho ni idm (ao b) (mask b) MGGA) b) of
        Inr (exc_b, vxc_b) \<Rightarrow> exc_b | Inl err \<Rightarrow> [])"



section \<open>Concrete inputs\<close>

text \<open>A primary evaluation that returns \<open>(n, e, v)\<close> whatever the density matrix.\<close>

definition nr_rks_of :: "flt \<Rightarrow> flt \<Rightarrow> array \<Rightarrow> array \<Rightarrow> unit + flt \<times> flt \<times> array" where
  "nr_rks_of n e v dm = Inr (n, e, v)"

text \<open>
  The network energy \<open>E(dm) = dm[0,1]\<close> on two by two matrices, with its gradient: the
  matrix with a one at \<open>(0, 1)\<close>.
\<close>

definition network_01 :: "array \<Rightarrow> unit + flt \<times> array" where
  "network_01 dm = Inr (Fin (matrix_of dm ! 0 ! 1), Mat [[0, 1], [0, 0]])"

definition dm_zero :: array where
  "dm_zero = Mat [[0, 0], [0, 0]]"

definition obj_zero :: vxc_obj where
  "obj_zero = \<lparr>exc = Fin 0, vxc = Mat [[0, 0], [0, 0]]\<rparr>"

text \<open>
  An evaluator that rejects the extended form and, on the minimal form, returns
  \<open>exc = rho[0]\<^sup>2\<close>, five components and two more slots; and one that accepts the
  extended form only.
\<close>

definition eval_xc_minimal_only ::
  "(dual list list, unit) xc_call \<Rightarrow> string + dual list \<times> dual list list \<times> unit list" where
  "eval_xc_minimal_only c =
     (case c of
        Extended code rho a w cs kw \<Rightarrow> Inl ''TypeError''
      | Minimal code rho kw \<Rightarrow>
          (case rho of
             [] \<Rightarrow> Inl ''IndexError''
           | r # rs \<Rightarrow> Inr (map (\<lambda>d. d * d) r, [r, r, r, r, r], [(), ()])))"

definition eval_xc_extended_only ::
  "(dual list list, unit) xc_call \<Rightarrow> string + dual list \<times> dual list list \<times> unit list" where
  "eval_xc_extended_only c =
     (case c of
        Extended code rho a w cs kw \<Rightarrow> Inr (w, [w], [()])
      | Minimal code rho kw \<Rightarrow> Inl ''unused'')"

definition ni_minimal :: "(string, dual list list, unit, unit, dual list, unit) numint" where
  "ni_minimal = \<lparr>eval_xc = eval_xc_minimal_only, make_rho = (\<lambda>idm a m lvl. a),
                  xc_code = ''network'', rel = 0, verb = 0\<rparr>"

definition ni_extended :: "(string, dual list list, unit, unit, dual list, unit) numint" where
  "ni_extended = \<lparr>eval_xc = eval_xc_extended_only, make_rho = (\<lambda>idm a m lvl. a),
                   xc_code = ''network'', rel = 0, verb = 0\<rparr>"

text \<open>A block from the density on its points and their weights; a grid of three points, cut twice.\<close>

definition grid_block :: "dual list \<Rightarrow> dual list \<Rightarrow> (dual list list, unit, unit) block" where
  "grid_block rho0 w = \<lparr>ao = [rho0], mask = (), weight = w, coords = ()\<rparr>"

definition blocks_2_1 :: "(dual list list, unit, unit) block list" where
  "blocks_2_1 =
     [grid_block [Dual 1 1, Dual 2 0] [Dual 1 0, Dual 3 0], grid_block [Dual 4 1] [Dual 2 0]]"

definition blocks_1_2 :: "(dual list list, unit, unit) block list" where
  "blocks_1_2 =
     [grid_block [Dual 1 1] [Dual 1 0], grid_block [Dual 2 0, Dual 4 1] [Dual 3 0, Dual 2 0]]"


section \<open>Lemmas on matrices\<close>

lemma dot_nth:
  "length xs = length ys \<Longrightarrow> dot xs ys = (\<Sum>k\<leftarrow>[0..<length xs]. xs ! k * ys ! k)"
proof -
  assume len: "length xs = length ys"
  have "map2 (*) xs ys = map (\<lambda>k. xs ! k * ys ! k) [0..<length xs]"
    using len by (intro nth_equalityI) auto
  then show ?thesis by (simp add: dot_def)
qed



lemma length_eye [simp]: "length (eye n) = n"
  by (simp add: eye_def)




lemma ncols_square: "square n m \<Longrightarrow> ncols m = n"
  by (cases m) (auto simp: square_def ncols_def)

lemma square_row: "square n m \<Longrightarrow> i < n \<Longrightarrow> length (m ! i) = n"
  by (auto simp: square_def list_all_length)







lemma matmul_square:
  "square n A \<Longrightarrow> square n B \<Longrightarrow> matmul A B = Inr (mat_prod A B)"
  by (simp add: matmul_def mat_prod_def square_def)

lemma square_mat_prod:
  "square n A \<Longrightarrow> square n B \<Longrightarrow> square n (mat_prod A B)"
  by (simp add: mat_prod_def square_def list_all_iff ncols_square[unfolded square_def])

lemma mat_prod_nth:
  assumes "square n A" "square n B" "i < n" "l < n"
  shows "mat_prod A B ! i ! l = (\<Sum>k\<leftarrow>[0..<n]. A ! i ! k * B ! k ! l)"
proof -
  have lenA: "length A = n" and lenB: "length B = n" using assms by (simp_all add: square_def)
  have row: "length (A ! i) = n" using assms by (simp add: square_row)
  have nc: "ncols B = n" using assms by (simp add: ncols_square)
  have "mat_prod A B ! i ! l = dot (A ! i) (map (\<lambda>r. r ! l) B)"
    using assms lenA nc by (simp add: mat_prod_def)
  also have "\<dots> = (\<Sum>k\<leftarrow>[0..<n]. A ! i ! k * (map (\<lambda>r. r ! l) B) ! k)"
    using dot_nth[of "A ! i" "map (\<lambda>r. r ! l) B"] row lenB by simp
  also have "\<dots> = (\<Sum>k\<leftarrow>[0..<n]. A ! i ! k * B ! k ! l)"
    using lenB by (intro arg_cong[where f=sum_list] map_cong) auto
  finally show ?thesis .
qed

lemma square_mat_T: "square n A \<Longrightarrow> square n (mat_T A)"
  by (simp add: mat_T_def square_def list_all_iff ncols_square[unfolded square_def])

lemma two_sided_nth:
  assumes L: "square n L" and M: "square n M" and v: "square n v" and i: "i < n" and l: "l < n"
  shows "mat_prod L (mat_prod v M) ! i ! l
           = (\<Sum>j\<leftarrow>[0..<n]. \<Sum>k\<leftarrow>[0..<n]. L ! i ! j * v ! j ! k * M ! k ! l)"
proof -
  have sq: "square n (mat_prod v M)" using v M by (rule square_mat_prod)
  have "mat_prod L (mat_prod v M) ! i ! l = (\<Sum>j\<leftarrow>[0..<n]. L ! i ! j * mat_prod v M ! j ! l)"
    using L sq i l by (rule mat_prod_nth)
  also have "\<dots> = (\<Sum>j\<leftarrow>[0..<n]. L ! i ! j * (\<Sum>k\<leftarrow>[0..<n]. v ! j ! k * M ! k ! l))"
    using v M l by (intro arg_cong[where f=sum_list] map_cong) (auto simp: mat_prod_nth)
  also have "\<dots> = (\<Sum>j\<leftarrow>[0..<n]. \<Sum>k\<leftarrow>[0..<n]. L ! i ! j * v ! j ! k * M ! k ! l)"
    by (simp add: sum_list_const_mult mult.assoc)
  finally show ?thesis .
qed

lemma einsum_slice:
  assumes L: "square n L" and M: "square n M" and v: "square n v"
  shows "map (\<lambda>i. map (\<lambda>l. \<Sum>j\<leftarrow>[0..<length v]. \<Sum>k\<leftarrow>[0..<length M].
              L ! i ! j * v ! j ! k * M ! k ! l) [0..<ncols M]) [0..<length L]
           = mat_prod L (mat_prod v M)"
proof -
  have lens: "length v = n" "length M = n" "length L = n" "ncols M = n"
    using L M v by (simp_all add: square_def ncols_square)
  have sq: "square n (mat_prod L (mat_prod v M))"
    using L M v by (simp add: square_mat_prod)
  show ?thesis
  proof (rule nth_equalityI)
    show "length (map (\<lambda>i. map (\<lambda>l. \<Sum>j\<leftarrow>[0..<length v]. \<Sum>k\<leftarrow>[0..<length M].
              L ! i ! j * v ! j ! k * M ! k ! l) [0..<ncols M]) [0..<length L])
            = length (mat_prod L (mat_prod v M))"
      using sq lens by (simp add: square_def)
  next
    fix i
    assume "i < length (map (\<lambda>i. map (\<lambda>l. \<Sum>j\<leftarrow>[0..<length v]. \<Sum>k\<leftarrow>[0..<length M].
              L ! i ! j * v ! j ! k * M ! k ! l) [0..<ncols M]) [0..<length L])"
    then have i: "i < n" using lens by simp
    have "map (\<lambda>l. \<Sum>j\<leftarrow>[0..<n]. \<Sum>k\<leftarrow>[0..<n]. L ! i ! j * v ! j ! k * M ! k ! l) [0..<n]
            = mat_prod L (mat_prod v M) ! i"
    proof (rule nth_equalityI)
      show "length (map (\<lambda>l. \<Sum>j\<leftarrow>[0..<n]. \<Sum>k\<leftarrow>[0..<n]. L ! i ! j * v ! j ! k * M ! k ! l) [0..<n])
              = length (mat_prod L (mat_prod v M) ! i)"
        using sq i by (simp add: square_row)
    next
      fix l
      assume "l < length (map (\<lambda>l. \<Sum>j\<leftarrow>[0..<n]. \<Sum>k\<leftarrow>[0..<n]. L ! i ! j * v ! j ! k * M ! k ! l) [0..<n])"
      then have l: "l < n" by simp
      show "map (\<lambda>l. \<Sum>j\<leftarrow>[0..<n]. \<Sum>k\<leftarrow>[0..<n]. L ! i ! j * v ! j ! k * M ! k ! l) [0..<n] ! l
              = mat_prod L (mat_prod v M) ! i ! l"
        using two_sided_nth[OF L M v i l] l by simp
    qed
    then show "map (\<lambda>i. map (\<lambda>l. \<Sum>j\<leftarrow>[0..<length v]. \<Sum>k\<leftarrow>[0..<length M].
              L ! i ! j * v ! j ! k * M ! k ! l) [0..<ncols M]) [0..<length L] ! i
            = mat_prod L (mat_prod v M) ! i"
      using i lens by simp
  qed
qed

lemma einsum_square:
  assumes L: "square n L" and M: "square n M" and V: "list_all (square n) V"
  shows "einsum_ij_xjk_kl L V M = Inr (map (\<lambda>v. mat_prod L (mat_prod v M)) V)"
proof -
  have c1: "list_all (\<lambda>row. list_all (\<lambda>v. length row = length v) V) L"
    using L V by (auto simp: square_def list_all_iff)
  have c2: "list_all (\<lambda>v. list_all (\<lambda>row. length row = length M) v) V"
    using M V by (auto simp: square_def list_all_iff)
  have "map (\<lambda>v. map (\<lambda>i. map (\<lambda>l. \<Sum>j\<leftarrow>[0..<length v]. \<Sum>k\<leftarrow>[0..<length M].
              L ! i ! j * v ! j ! k * M ! k ! l) [0..<ncols M]) [0..<length L]) V
          = map (\<lambda>v. mat_prod L (mat_prod v M)) V"
    using V by (intro map_cong refl einsum_slice[OF L M]) (simp add: list_all_iff)
  then show ?thesis using c1 c2 by (simp add: einsum_ij_xjk_kl_def)
qed

lemma apply_transform_spec:
  assumes L: "square n L" and g: "conforms n g"
  shows "apply_transform L g = Inr (spec_symmetrize L g)"
proof (cases g)
  case (Mat v)
  then have v: "square n v" using g by simp
  have T: "square n (mat_T L)" using L by (rule square_mat_T)
  show ?thesis using Mat
    by (simp add: apply_transform_def two_sided_def matmul_square[OF v T]
        matmul_square[OF L square_mat_prod[OF v T]])
next
  case (Stack vs)
  then have V: "list_all (square n) vs" using g by simp
  have T: "square n (mat_T L)" using L by (rule square_mat_T)
  show ?thesis using Stack
    by (simp add: apply_transform_def two_sided_def einsum_square[OF L T V])
qed

lemma square_eye: "square n (eye n)"
  by (simp add: square_def eye_def list_all_iff)





lemmas veff_eval = eye_def mat_T_def ncols_def matmul_def dot_def einsum_ij_xjk_kl_def
  apply_transform_def restore_symmetry_def get_veff_def isnan_def network_calls_def
  mat_prod_def two_sided_def square_def
  nr_rks_of_def network_01_def dm_zero_def obj_zero_def upt_conv_Cons

section \<open>Properties of the effective-potential evaluator\<close>

text \<open>
  C2, as the specification states it, fails on an infinite energy: \<^verbatim>\<open>np.isnan\<close> is
  false on an infinity, so a primary energy of plus infinity, which is not a finite
  number, is kept and the network is not called.
\<close>

theorem get_veff_infinite_exc_no_fallback:
  "\<not> isfinite PInf
   \<and> get_veff (nr_rks_of (Fin 2) PInf dm_zero) network_01 False dm_zero obj_zero
       = ([Call_nr_rks dm_zero], Inr (Fin 2, \<lparr>exc = PInf, vxc = Mat [[0, 0], [0, 0]]\<rparr>))
   \<and> network_calls [Call_nr_rks dm_zero] = 0"
  by (simp add: veff_eval del: upt_Suc)

text \<open>
  C2, amended: the evaluator calls the network exactly when the primary energy is NaN,
  once, whatever the primary potential is; and whenever the primary energy is not NaN
  (finite or infinite) it makes no call but the primary one and leaves the object with
  exactly the primary \<open>exc\<close> and \<open>vxc\<close>, together with the primary \<open>n\<close>.
\<close>

theorem get_veff_fallback_iff_nan:
  assumes "nr_rks dm = Inr (n, e, v)"
  shows "network_calls (fst (get_veff nr_rks network_vg network_verbose dm obj))
           = (if e = NaN then 1 else 0)
       \<and> (e \<noteq> NaN \<longrightarrow> get_veff nr_rks network_vg network_verbose dm obj
              = ([Call_nr_rks dm], Inr (n, obj\<lparr>exc := e, vxc := v\<rparr>)))"
  using assms
  by (auto simp: get_veff_def isnan_def network_calls_def Let_def split: sum.splits prod.splits)

text \<open>
  The amended C2 at a finite negative energy (no call of the network, the primary result
  kept) and at NaN (one call).
\<close>

theorem get_veff_fallback_iff_nan_witness:
  "nr_rks_of (Fin 2) (Fin (- 3)) dm_zero dm_zero = Inr (Fin 2, Fin (- 3), dm_zero)
   \<and> network_calls (fst (get_veff (nr_rks_of (Fin 2) (Fin (- 3)) dm_zero) network_01 True dm_zero obj_zero)) = 0
   \<and> get_veff (nr_rks_of (Fin 2) (Fin (- 3)) dm_zero) network_01 True dm_zero obj_zero
       = ([Call_nr_rks dm_zero], Inr (Fin 2, obj_zero\<lparr>exc := Fin (- 3), vxc := dm_zero\<rparr>))
   \<and> nr_rks_of (Fin 2) NaN dm_zero dm_zero = Inr (Fin 2, NaN, dm_zero)
   \<and> network_calls (fst (get_veff (nr_rks_of (Fin 2) NaN dm_zero) network_01 True dm_zero obj_zero)) = 1"
proof -
  have h1: "nr_rks_of (Fin 2) (Fin (- 3)) dm_zero dm_zero = Inr (Fin 2, Fin (- 3), dm_zero)"
    by (simp add: nr_rks_of_def)
  have h2: "nr_rks_of (Fin 2) NaN dm_zero dm_zero = Inr (Fin 2, NaN, dm_zero)"
    by (simp add: nr_rks_of_def)
  show ?thesis
    using h1 h2
      get_veff_fallback_iff_nan [where nr_rks = "nr_rks_of (Fin 2) (Fin (- 3)) dm_zero"
        and dm = dm_zero and n = "Fin 2" and e = "Fin (- 3)" and v = dm_zero
        and network_vg = network_01 and network_verbose = True and obj = obj_zero]
      get_veff_fallback_iff_nan [where nr_rks = "nr_rks_of (Fin 2) NaN dm_zero"
        and dm = dm_zero and n = "Fin 2" and e = NaN and v = dm_zero
        and network_vg = network_01 and network_verbose = True and obj = obj_zero]
    by (simp add: network_calls_def)
qed


text \<open>
  C1 at a concrete input. The density matrix is the two by two zero matrix, the primary
  evaluation yields \<open>exc = NaN\<close>, and the network energy is \<open>E(dm) = dm[0,1]\<close>, whose
  gradient has a one at \<open>(0, 1)\<close> and zeros elsewhere. The network is called once, and
  the potential the evaluator returns is that gradient: it is not equal to its
  transpose, although the patch announces that it restores the symmetry.
\<close>

theorem get_veff_fallback_keeps_asymmetric_gradient:
  "get_veff (nr_rks_of (Fin 2) NaN dm_zero) network_01 True dm_zero obj_zero
     = ([Call_nr_rks dm_zero,
         Print ''RKSAnalyzer.get_veff; nans in exc, trying with network'',
         Call_network_eval dm_zero,
         Print ''restoring vxc symmetry''],
        Inr (Fin 2, \<lparr>exc = Fin 0, vxc = Mat [[0, 1], [0, 0]]\<rparr>))
   \<and> network_calls [Call_nr_rks dm_zero,
         Print ''RKSAnalyzer.get_veff; nans in exc, trying with network'',
         Call_network_eval dm_zero,
         Print ''restoring vxc symmetry''] = 1
   \<and> mat_T [[0, 1], [0, 0]] = [[0, 0], [1, 0]]
   \<and> \<not> symmetric (Mat [[0, 1], [0, 0]])"
  by (simp add: veff_eval del: upt_Suc)

text \<open>
  C5: the transform of lines 22 to 25 is the two-sided product of the specification,
  \<open>L \<cdot> v \<cdot> L\<^sup>T\<close> for a matrix and the same product for each matrix of a stack, for
  every \<open>k\<close> by \<open>k\<close> matrix \<open>L\<close> and every array \<open>h\<close> of \<open>k\<close> by \<open>k\<close> matrices. The
  fragment has no parameter for a basis transform: its \<open>L\<close> is the identity of size
  \<open>dm.shape[-1]\<close>, and when the fallback runs on a gradient \<open>g\<close> of that size the
  potential it stores is the two-sided product with that identity.
\<close>

theorem restore_symmetry_two_sided:
  assumes "square k L" and "conforms k h" and "conforms (last_dim dm) g"
      and "nr_rks dm = Inr (n, NaN, v)" and "network_vg dm = Inr (excG, g)"
  shows "(apply_transform L h :: 'e error + array) = Inr (spec_symmetrize L h)
       \<and> (restore_symmetry dm g :: 'e error + array) = apply_transform (eye (last_dim dm)) g
       \<and> snd (get_veff nr_rks network_vg network_verbose dm obj)
           = (Inr (n, obj\<lparr>exc := excG, vxc := spec_symmetrize (eye (last_dim dm)) g\<rparr>)
                :: 'e error + flt \<times> 'a vxc_obj_scheme)"
proof -
  have a: "(apply_transform L h :: 'e error + array) = Inr (spec_symmetrize L h)"
    using assms(1,2) by (rule apply_transform_spec)
  have b: "(restore_symmetry dm g :: 'e error + array) = apply_transform (eye (last_dim dm)) g"
    by (simp add: restore_symmetry_def)
  have c: "(restore_symmetry dm g :: 'e error + array) = Inr (spec_symmetrize (eye (last_dim dm)) g)"
    using apply_transform_spec [OF square_eye assms(3)] by (simp add: restore_symmetry_def)
  have d: "snd (get_veff nr_rks network_vg network_verbose dm obj)
           = (Inr (n, obj\<lparr>exc := excG, vxc := spec_symmetrize (eye (last_dim dm)) g\<rparr>)
                :: 'e error + flt \<times> 'a vxc_obj_scheme)"
    using assms(4,5) c by (simp add: get_veff_def isnan_def Let_def)
  show ?thesis using a b d by blast
qed

text \<open>
  C5 on a stack of two matrices with \<open>L = [[1, 2], [3, 4]]\<close>, and on the fallback at the
  zero density matrix.
\<close>

theorem restore_symmetry_two_sided_witness:
  "square 2 [[1, 2], [3, 4]]
   \<and> conforms 2 (Stack [[[1, 0], [0, 1]], [[0, 1], [0, 0]]])
   \<and> conforms (last_dim dm_zero) (Mat [[0, 1], [0, 0]])
   \<and> nr_rks_of (Fin 2) NaN dm_zero dm_zero = Inr (Fin 2, NaN, dm_zero)
   \<and> network_01 dm_zero = Inr (Fin 0, Mat [[0, 1], [0, 0]])
   \<and> (apply_transform [[1, 2], [3, 4]] (Stack [[[1, 0], [0, 1]], [[0, 1], [0, 0]]]) :: unit error + array)
       = Inr (Stack [[[5, 11], [11, 25]], [[2, 4], [6, 12]]])
   \<and> snd (get_veff (nr_rks_of (Fin 2) NaN dm_zero) network_01 False dm_zero obj_zero)
       = Inr (Fin 2, obj_zero\<lparr>exc := Fin 0, vxc := Mat [[0, 1], [0, 0]]\<rparr>)"
proof -
  have h1: "square 2 [[1, 2], [3, 4]]"
    by (simp add: square_def)
  have h2: "conforms 2 (Stack [[[1, 0], [0, 1]], [[0, 1], [0, 0]]])"
    by (simp add: square_def)
  have h3: "conforms (last_dim dm_zero) (Mat [[0, 1], [0, 0]])"
    by (simp add: square_def dm_zero_def ncols_def)
  have h4: "nr_rks_of (Fin 2) NaN dm_zero dm_zero = Inr (Fin 2, NaN, dm_zero)"
    by (simp add: nr_rks_of_def)
  have h5: "network_01 dm_zero = Inr (Fin 0, Mat [[0, 1], [0, 0]])"
    by (simp add: network_01_def dm_zero_def)
  have e1: "spec_symmetrize [[1, 2], [3, 4]] (Stack [[[1, 0], [0, 1]], [[0, 1], [0, 0]]])
              = Stack [[[5, 11], [11, 25]], [[2, 4], [6, 12]]]"
    by (simp add: veff_eval del: upt_Suc)
  have e2: "spec_symmetrize (eye (last_dim dm_zero)) (Mat [[0, 1], [0, 0]]) = Mat [[0, 1], [0, 0]]"
    by (simp add: veff_eval del: upt_Suc)
  show ?thesis
    using h1 h2 h3 h4 h5 e1 e2
      restore_symmetry_two_sided [where k = 2 and L = "[[1, 2], [3, 4]]"
        and h = "Stack [[[1, 0], [0, 1]], [[0, 1], [0, 0]]]" and dm = dm_zero
        and g = "Mat [[0, 1], [0, 0]]" and nr_rks = "nr_rks_of (Fin 2) NaN dm_zero"
        and n = "Fin 2" and v = dm_zero and network_vg = network_01 and excG = "Fin 0"
        and network_verbose = False and obj = obj_zero]
    by simp
qed



text \<open>
  C10: when the evaluator returns, the local \<open>n\<close> is the one of the primary evaluation,
  and the object differs from the one it was given in the fields \<open>exc\<close> and \<open>vxc\<close> at
  most: every other part of it is as before. When the primary energy is not NaN the two
  fields hold the primary results and the only effect is the primary call.
\<close>

theorem get_veff_frame:
  assumes "nr_rks dm = Inr (n, e, v)"
      and "get_veff nr_rks network_vg network_verbose dm obj = (tr, Inr (n', obj'))"
  shows "n' = n
       \<and> vxc_obj.more obj' = vxc_obj.more obj
       \<and> obj' = obj\<lparr>exc := exc obj', vxc := vxc obj'\<rparr>
       \<and> (e \<noteq> NaN \<longrightarrow> obj' = obj\<lparr>exc := e, vxc := v\<rparr> \<and> tr = [Call_nr_rks dm])"
  using assms
  by (auto simp: get_veff_def isnan_def Let_def split: sum.splits prod.splits if_splits)

text \<open>
  C10 on an object that carries a further field, with a primary energy of NaN (the
  fallback runs) and with a finite one.
\<close>

theorem get_veff_frame_witness:
  "nr_rks_of (Fin 2) NaN dm_zero dm_zero = Inr (Fin 2, NaN, dm_zero)
   \<and> get_veff (nr_rks_of (Fin 2) NaN dm_zero) network_01 False dm_zero
         (vxc_obj.extend obj_zero ''ecoul'')
       = ([Call_nr_rks dm_zero,
           Print ''RKSAnalyzer.get_veff; nans in exc, trying with network'',
           Call_network_eval dm_zero],
          Inr (Fin 2, vxc_obj.extend \<lparr>exc = Fin 0, vxc = Mat [[0, 1], [0, 0]]\<rparr> ''ecoul''))
   \<and> vxc_obj.more (vxc_obj.extend \<lparr>exc = Fin 0, vxc = Mat [[0, 1], [0, 0]]\<rparr> ''ecoul'') = ''ecoul''
   \<and> nr_rks_of (Fin 2) (Fin 5) dm_zero dm_zero = Inr (Fin 2, Fin 5, dm_zero)
   \<and> get_veff (nr_rks_of (Fin 2) (Fin 5) dm_zero) network_01 False dm_zero
         (vxc_obj.extend obj_zero ''ecoul'')
       = ([Call_nr_rks dm_zero],
          Inr (Fin 2, vxc_obj.extend \<lparr>exc = Fin 5, vxc = dm_zero\<rparr> ''ecoul''))"
proof -
  have h1: "nr_rks_of (Fin 2) NaN dm_zero dm_zero = Inr (Fin 2, NaN, dm_zero)"
    by (simp add: nr_rks_of_def)
  have h2: "get_veff (nr_rks_of (Fin 2) NaN dm_zero) network_01 False dm_zero
         (vxc_obj.extend obj_zero ''ecoul'')
       = ([Call_nr_rks dm_zero,
           Print ''RKSAnalyzer.get_veff; nans in exc, trying with network'',
           Call_network_eval dm_zero],
          Inr (Fin 2, vxc_obj.extend \<lparr>exc = Fin 0, vxc = Mat [[0, 1], [0, 0]]\<rparr> ''ecoul''))"
    by (simp add: veff_eval vxc_obj.defs del: upt_Suc)
  have h3: "nr_rks_of (Fin 2) (Fin 5) dm_zero dm_zero = Inr (Fin 2, Fin 5, dm_zero)"
    by (simp add: nr_rks_of_def)
  have h4: "get_veff (nr_rks_of (Fin 2) (Fin 5) dm_zero) network_01 False dm_zero
         (vxc_obj.extend obj_zero ''ecoul'')
       = ([Call_nr_rks dm_zero],
          Inr (Fin 2, vxc_obj.extend \<lparr>exc = Fin 5, vxc = dm_zero\<rparr> ''ecoul''))"
    by (simp add: veff_eval vxc_obj.defs del: upt_Suc)
  show ?thesis
    using h1 h2 h3 h4 get_veff_frame [OF h1 h2] get_veff_frame [OF h3 h4]
    by (simp add: vxc_obj.defs)
qed


section \<open>Lemmas on the dispatcher\<close>


lemma result_try:
  "snd (eval_xc_try ni lvl rho b) =
     (case eval_xc ni (extended_call ni rho b) of
        Inr r \<Rightarrow> first_two (Inr r)
      | Inl e \<Rightarrow> first_two (eval_xc ni (minimal_call ni rho)))"
  by (simp add: eval_xc_try_def first_two_def split: sum.splits prod.splits)




lemma mgga_body_Inr:
  assumes "snd (mgga_body ni idm b (nelec, excsum)) = Inr (comps, e, den, nelec', excsum')"
  shows "den = den_of ni idm b" "e = exc_of ni idm b"
    "idm < length nelec" "idm < length excsum" "length den = length e"
    "nelec' = nelec[idm := nelec ! idm + sum_list (map stop_grad den)]"
    "excsum' = excsum[idm := excsum ! idm + sum_list (map2 (*) den e)]"
    "\<exists>vxc_b. snd (eval_xc_try ni MGGA (make_rho ni idm (ao b) (mask b) MGGA) b) = Inr (e, vxc_b)
        \<and> take 4 vxc_b = [fst comps, fst (snd comps), fst (snd (snd comps)), snd (snd (snd comps))]"
  using assms
  by (auto simp: mgga_body_def den_of_def exc_of_def dot_dual_def Let_def
      split: prod.splits sum.splits list.splits if_splits)

lemma primal_plus [simp]: "primal (a + b) = primal a + primal b"
  by (simp add: plus_dual_def)

lemma tangent_plus [simp]: "tangent (a + b) = tangent a + tangent b"
  by (simp add: plus_dual_def)

lemma primal_zero [simp]: "primal 0 = 0"
  by (simp add: zero_dual_def)

lemma tangent_zero [simp]: "tangent 0 = 0"
  by (simp add: zero_dual_def)

lemma primal_times [simp]: "primal (a * b) = primal a * primal b"
  by (simp add: times_dual_def)

lemma tangent_times [simp]: "tangent (a * b) = tangent a * primal b + primal a * tangent b"
  by (simp add: times_dual_def)

lemma primal_sum_list: "primal (sum_list xs) = (\<Sum>x\<leftarrow>xs. primal x)"
  by (induction xs) simp_all

lemma tangent_sum_list: "tangent (sum_list xs) = (\<Sum>x\<leftarrow>xs. tangent x)"
  by (induction xs) simp_all

lemma primal_stop_grad [simp]: "primal (stop_grad d) = primal d"
  by (simp add: stop_grad_def)

lemma tangent_stop_grad [simp]: "tangent (stop_grad d) = 0"
  by (simp add: stop_grad_def)



lemma zip_concat_map:
  "\<forall>b\<in>set bs. length (f b) = length (g b) \<Longrightarrow>
     zip (concat (map f bs)) (concat (map g bs)) = concat (map (\<lambda>b. zip (f b) (g b)) bs)"
  by (induction bs) simp_all




lemma take_4_nth:
  assumes "take 4 xs = [a, b, c, d]"
  shows "4 \<le> length xs \<and> xs ! 0 = a \<and> xs ! 1 = b \<and> xs ! 2 = c \<and> xs ! 3 = d"
proof -
  have "length (take 4 xs) = 4" using assms by simp
  then have len: "4 \<le> length xs" by simp
  have "\<And>i. i < 4 \<Longrightarrow> xs ! i = [a, b, c, d] ! i"
    using assms nth_take [of _ 4 xs] by metis
  from this [of 0] this [of 1] this [of 2] this [of 3] len show ?thesis by simp
qed

lemma gga_components_Inr:
  assumes "(gga_components xs :: 'e error + 'v \<times> 'v) = Inr (a, b)"
  shows "2 \<le> length xs \<and> xs ! 0 = a \<and> xs ! 1 = b"
proof -
  have t: "take 2 xs = [a, b]"
    using assms by (auto simp: gga_components_def split: list.splits)
  then have "length (take 2 xs) = 2" by simp
  then have len: "2 \<le> length xs" by simp
  have "\<And>i. i < 2 \<Longrightarrow> xs ! i = [a, b] ! i"
    using t nth_take [of _ 2 xs] by metis
  from this [of 0] this [of 1] len show ?thesis by simp
qed

lemma lda_body_Inr:
  assumes "snd (lda_body ni idm b) = Inr (e, v, vrho)"
  shows "snd (eval_xc_try ni LDA (make_rho ni idm (ao b) (mask b) LDA) b) = Inr (e, v)
       \<and> v \<noteq> [] \<and> vrho = v ! 0"
  using assms
  by (auto simp: lda_body_def Let_def split: prod.splits sum.splits list.splits)

lemma gga_body_Inr:
  assumes "snd (gga_body ni idm b) = Inr (e, v, den)"
  shows "snd (eval_xc_try ni GGA (make_rho ni idm (ao b) (mask b) GGA) b) = Inr (e, v)"
  using assms
  by (auto simp: gga_body_def Let_def split: prod.splits sum.splits list.splits)

lemma eval_xc_try_discard_slots:
  "eval_xc_try (discard_slots ni) lvl rho b = eval_xc_try ni lvl rho b"
  by (simp add: eval_xc_try_def discard_slots_def extended_call_def minimal_call_def
      split: sum.splits prod.splits)

lemmas numint_eval = eval_xc_minimal_only_def eval_xc_extended_only_def ni_minimal_def
  ni_extended_def grid_block_def blocks_2_1_def blocks_1_2_def mgga_body_def eval_xc_try_def
  extended_call_def minimal_call_def density_times_weight_def times_arrays_def dot_dual_def
  den_of_def exc_of_def plus_dual_def times_dual_def zero_dual_def stop_grad_def Let_def
  lda_body_def gga_body_def calls_def first_two_def



section \<open>Properties of the dispatcher\<close>



text \<open>
  C8: whatever exception the extended call raises (its type is arbitrary), the
  dispatcher goes on to the minimal call, and its outcome is the outcome of the minimal
  call alone; an exception that leaves the dispatcher is one the minimal call raised.
\<close>

theorem bare_except_catches_all:
  assumes "eval_xc ni (extended_call ni rho b) = Inl err"
  shows "eval_xc_try ni lvl rho b
           = ([Print_block_loop lvl, Call_eval_xc (extended_call ni rho b),
               Call_eval_xc (minimal_call ni rho)],
              first_two (eval_xc ni (minimal_call ni rho)))
       \<and> (\<forall>x. snd (eval_xc_try ni lvl rho b) = Inl x \<longrightarrow>
             (\<exists>e'. x = Raised e' \<and> eval_xc ni (minimal_call ni rho) = Inl e'))"
  using assms
  by (auto simp: eval_xc_try_def first_two_def split: sum.splits prod.splits)

text \<open>
  C8 where the extended call raises and the minimal call succeeds, and where both raise:
  the exception that propagates is the one of the minimal call.
\<close>

theorem bare_except_catches_all_witness:
  "eval_xc ni_minimal (extended_call ni_minimal [[Dual 2 1]] (grid_block [Dual 2 1] [Dual 3 0]))
     = Inl ''TypeError''
   \<and> snd (eval_xc_try ni_minimal MGGA [[Dual 2 1]] (grid_block [Dual 2 1] [Dual 3 0]))
       = Inr ([Dual 4 4], [[Dual 2 1], [Dual 2 1], [Dual 2 1], [Dual 2 1], [Dual 2 1]])
   \<and> eval_xc ni_minimal (extended_call ni_minimal [] (grid_block [] []))
       = Inl ''TypeError''
   \<and> eval_xc ni_minimal (minimal_call ni_minimal []) = Inl ''IndexError''
   \<and> snd (eval_xc_try ni_minimal MGGA [] (grid_block [] [])) = Inl (Raised ''IndexError'')"
proof -
  have h1: "eval_xc ni_minimal
              (extended_call ni_minimal [[Dual 2 1]] (grid_block [Dual 2 1] [Dual 3 0]))
            = Inl ''TypeError''"
    by (simp add: numint_eval)
  have h2: "eval_xc ni_minimal (extended_call ni_minimal [] (grid_block [] [])) = Inl ''TypeError''"
    by (simp add: numint_eval)
  have h3: "eval_xc ni_minimal (minimal_call ni_minimal [[Dual 2 1]])
            = Inr ([Dual 4 4], [[Dual 2 1], [Dual 2 1], [Dual 2 1], [Dual 2 1], [Dual 2 1]],
                   [(), ()])"
    by (simp add: numint_eval)
  have h4: "eval_xc ni_minimal (minimal_call ni_minimal []) = Inl ''IndexError''"
    by (simp add: numint_eval)
  have r1: "snd (eval_xc_try ni_minimal MGGA [[Dual 2 1]] (grid_block [Dual 2 1] [Dual 3 0]))
              = Inr ([Dual 4 4], [[Dual 2 1], [Dual 2 1], [Dual 2 1], [Dual 2 1], [Dual 2 1]])"
    using bare_except_catches_all [OF h1, of MGGA, THEN conjunct1] by (simp add: h3 first_two_def)
  have r2: "snd (eval_xc_try ni_minimal MGGA [] (grid_block [] [])) = Inl (Raised ''IndexError'')"
    using bare_except_catches_all [OF h2, of MGGA, THEN conjunct1] by (simp add: h4 first_two_def)
  show ?thesis using h1 h2 h4 r1 r2 by blast
qed

text \<open>
  C7: the dispatcher behaves the same when the evaluator returns no slot after the
  second, and a result \<open>(exc, vxc)\<close> of the try block is the first two slots of the
  extended or of the minimal call. The LDA branch binds \<open>vrho\<close> to \<open>vxc[0]\<close>. The GGA
  branch, in the lines of the patch, keeps \<open>vxc\<close> whole; the extraction that follows
  there takes \<open>vrho\<close> as \<open>vxc[0]\<close> and \<open>vsigma\<close> as \<open>vxc[1]\<close>. The MGGA branch binds
  \<open>vrho, vsigma, vlapl, vtau\<close> to the first four components of \<open>vxc\<close>, of which there
  are four at least when the branch goes on.
\<close>

theorem dispatcher_unpacking:
  "eval_xc_try (discard_slots ni) lvl rho b = eval_xc_try ni lvl rho b
   \<and> (snd (eval_xc_try ni lvl rho b) = Inr (e, v) \<longrightarrow>
        (\<exists>xs. eval_xc ni (extended_call ni rho b) = Inr (e, v, xs))
        \<or> (\<exists>xs. eval_xc ni (minimal_call ni rho) = Inr (e, v, xs)))
   \<and> (snd (lda_body ni idm b) = Inr (e1, v1, vrho1) \<longrightarrow>
        snd (eval_xc_try ni LDA (make_rho ni idm (ao b) (mask b) LDA) b) = Inr (e1, v1)
        \<and> v1 \<noteq> [] \<and> vrho1 = v1 ! 0)
   \<and> (snd (gga_body ni idm b) = Inr (e2, v2, den2) \<longrightarrow>
        snd (eval_xc_try ni GGA (make_rho ni idm (ao b) (mask b) GGA) b) = Inr (e2, v2))
   \<and> ((gga_components v2 :: 'e error + 'v \<times> 'v) = Inr (vrho2, vsigma2) \<longrightarrow>
        2 \<le> length v2 \<and> vrho2 = v2 ! 0 \<and> vsigma2 = v2 ! 1)
   \<and> (snd (mgga_body ni idm b (nelec, excsum))
         = Inr ((vrho, vsigma, vlapl, vtau), e3, den3, nelec3, excsum3) \<longrightarrow>
        (\<exists>v3. snd (eval_xc_try ni MGGA (make_rho ni idm (ao b) (mask b) MGGA) b) = Inr (e3, v3)
            \<and> 4 \<le> length v3
            \<and> vrho = v3 ! 0 \<and> vsigma = v3 ! 1 \<and> vlapl = v3 ! 2 \<and> vtau = v3 ! 3))"
proof -
  have a: "eval_xc_try (discard_slots ni) lvl rho b = eval_xc_try ni lvl rho b"
    by (rule eval_xc_try_discard_slots)
  have b: "snd (eval_xc_try ni lvl rho b) = Inr (e, v) \<longrightarrow>
        (\<exists>xs. eval_xc ni (extended_call ni rho b) = Inr (e, v, xs))
        \<or> (\<exists>xs. eval_xc ni (minimal_call ni rho) = Inr (e, v, xs))"
    by (auto simp: result_try first_two_def split: sum.splits prod.splits)
  have c: "snd (lda_body ni idm b) = Inr (e1, v1, vrho1) \<longrightarrow>
        snd (eval_xc_try ni LDA (make_rho ni idm (ao b) (mask b) LDA) b) = Inr (e1, v1)
        \<and> v1 \<noteq> [] \<and> vrho1 = v1 ! 0"
    using lda_body_Inr [of ni idm b e1 v1 vrho1] by simp
  have d: "snd (gga_body ni idm b) = Inr (e2, v2, den2) \<longrightarrow>
        snd (eval_xc_try ni GGA (make_rho ni idm (ao b) (mask b) GGA) b) = Inr (e2, v2)"
    using gga_body_Inr [of ni idm b e2 v2 den2] by simp
  have g: "(gga_components v2 :: 'e error + 'v \<times> 'v) = Inr (vrho2, vsigma2) \<longrightarrow>
        2 \<le> length v2 \<and> vrho2 = v2 ! 0 \<and> vsigma2 = v2 ! 1"
    using gga_components_Inr [of v2 vrho2 vsigma2, where ?'e = 'e] by auto
  have e: "snd (mgga_body ni idm b (nelec, excsum))
         = Inr ((vrho, vsigma, vlapl, vtau), e3, den3, nelec3, excsum3) \<longrightarrow>
        (\<exists>v3. snd (eval_xc_try ni MGGA (make_rho ni idm (ao b) (mask b) MGGA) b) = Inr (e3, v3)
            \<and> 4 \<le> length v3
            \<and> vrho = v3 ! 0 \<and> vsigma = v3 ! 1 \<and> vlapl = v3 ! 2 \<and> vtau = v3 ! 3)"
  proof
    assume run: "snd (mgga_body ni idm b (nelec, excsum))
         = Inr ((vrho, vsigma, vlapl, vtau), e3, den3, nelec3, excsum3)"
    from mgga_body_Inr(8) [OF run] obtain v3
      where r: "snd (eval_xc_try ni MGGA (make_rho ni idm (ao b) (mask b) MGGA) b) = Inr (e3, v3)"
        and t: "take 4 v3 = [vrho, vsigma, vlapl, vtau]"
      by auto
    from take_4_nth [OF t] r
    show "\<exists>v3. snd (eval_xc_try ni MGGA (make_rho ni idm (ao b) (mask b) MGGA) b) = Inr (e3, v3)
            \<and> 4 \<le> length v3
            \<and> vrho = v3 ! 0 \<and> vsigma = v3 ! 1 \<and> vlapl = v3 ! 2 \<and> vtau = v3 ! 3"
      by auto
  qed
  show ?thesis using a b c d g e by blast
qed


text \<open>
  C7 with the evaluator that returns five components and two more slots on the minimal
  form: on one block, the LDA branch binds the first component, the GGA branch keeps
  the five, and the MGGA branch binds the first four.
\<close>

theorem dispatcher_unpacking_witness:
  "snd (eval_xc_try ni_minimal LDA [[Dual 2 1]] (grid_block [Dual 2 1] [Dual 3 0]))
     = Inr ([Dual 4 4], [[Dual 2 1], [Dual 2 1], [Dual 2 1], [Dual 2 1], [Dual 2 1]])
   \<and> eval_xc ni_minimal (minimal_call ni_minimal [[Dual 2 1]])
       = Inr ([Dual 4 4], [[Dual 2 1], [Dual 2 1], [Dual 2 1], [Dual 2 1], [Dual 2 1]], [(), ()])
   \<and> snd (lda_body ni_minimal 0 (grid_block [Dual 2 1] [Dual 3 0]))
       = Inr ([Dual 4 4], [[Dual 2 1], [Dual 2 1], [Dual 2 1], [Dual 2 1], [Dual 2 1]], [Dual 2 1])
   \<and> snd (gga_body ni_minimal 0 (grid_block [Dual 2 1] [Dual 3 0]))
       = Inr ([Dual 4 4], [[Dual 2 1], [Dual 2 1], [Dual 2 1], [Dual 2 1], [Dual 2 1]], [Dual 6 3])
   \<and> (gga_components [[Dual 2 1], [Dual 2 1], [Dual 2 1], [Dual 2 1], [Dual 2 1]]
         :: string error + dual list \<times> dual list) = Inr ([Dual 2 1], [Dual 2 1])
   \<and> snd (mgga_body ni_minimal 0 (grid_block [Dual 2 1] [Dual 3 0]) ([0], [0]))
       = Inr (([Dual 2 1], [Dual 2 1], [Dual 2 1], [Dual 2 1]), [Dual 4 4], [Dual 6 3],
              [Dual 6 0], [Dual 24 36])
   \<and> (4::nat) \<le> length [[Dual 2 1], [Dual 2 1], [Dual 2 1], [Dual 2 1], [Dual 2 1]]"
proof -
  have h1: "snd (eval_xc_try ni_minimal LDA [[Dual 2 1]] (grid_block [Dual 2 1] [Dual 3 0]))
     = Inr ([Dual 4 4], [[Dual 2 1], [Dual 2 1], [Dual 2 1], [Dual 2 1], [Dual 2 1]])"
    by (simp add: numint_eval)
  have h2: "snd (lda_body ni_minimal 0 (grid_block [Dual 2 1] [Dual 3 0]))
       = Inr ([Dual 4 4], [[Dual 2 1], [Dual 2 1], [Dual 2 1], [Dual 2 1], [Dual 2 1]], [Dual 2 1])"
    by (simp add: numint_eval)
  have h3: "snd (gga_body ni_minimal 0 (grid_block [Dual 2 1] [Dual 3 0]))
       = Inr ([Dual 4 4], [[Dual 2 1], [Dual 2 1], [Dual 2 1], [Dual 2 1], [Dual 2 1]], [Dual 6 3])"
    by (simp add: numint_eval)
  have h4: "snd (mgga_body ni_minimal 0 (grid_block [Dual 2 1] [Dual 3 0]) ([0], [0]))
       = Inr (([Dual 2 1], [Dual 2 1], [Dual 2 1], [Dual 2 1]), [Dual 4 4], [Dual 6 3],
              [Dual 6 0], [Dual 24 36])"
    by (simp add: numint_eval)
  have h5: "eval_xc ni_minimal (minimal_call ni_minimal [[Dual 2 1]])
       = Inr ([Dual 4 4], [[Dual 2 1], [Dual 2 1], [Dual 2 1], [Dual 2 1], [Dual 2 1]], [(), ()])"
    by (simp add: numint_eval)
  have h6: "(gga_components [[Dual 2 1], [Dual 2 1], [Dual 2 1], [Dual 2 1], [Dual 2 1]]
         :: string error + dual list \<times> dual list) = Inr ([Dual 2 1], [Dual 2 1])"
    by (simp add: gga_components_def)
  note t = dispatcher_unpacking [where ni = ni_minimal and lvl = LDA and rho = "[[Dual 2 1]]"
        and b = "grid_block [Dual 2 1] [Dual 3 0]" and idm = 0 and nelec = "[0]" and excsum = "[0]"
        and e = "[Dual 4 4]"
        and v = "[[Dual 2 1], [Dual 2 1], [Dual 2 1], [Dual 2 1], [Dual 2 1]]"
        and ?e1.0 = "[Dual 4 4]"
        and ?v1.0 = "[[Dual 2 1], [Dual 2 1], [Dual 2 1], [Dual 2 1], [Dual 2 1]]"
        and ?vrho1.0 = "[Dual 2 1]"
        and ?e2.0 = "[Dual 4 4]"
        and ?v2.0 = "[[Dual 2 1], [Dual 2 1], [Dual 2 1], [Dual 2 1], [Dual 2 1]]"
        and ?den2.0 = "[Dual 6 3]" and ?vrho2.0 = "[Dual 2 1]" and ?vsigma2.0 = "[Dual 2 1]"
        and vrho = "[Dual 2 1]" and vsigma = "[Dual 2 1]" and vlapl = "[Dual 2 1]"
        and vtau = "[Dual 2 1]" and ?e3.0 = "[Dual 4 4]" and ?den3.0 = "[Dual 6 3]"
        and ?nelec3.0 = "[Dual 6 0]" and ?excsum3.0 = "[Dual 24 36]"]
  have len: "(4::nat) \<le> length [[Dual 2 1], [Dual 2 1], [Dual 2 1], [Dual 2 1], [Dual 2 1]]"
    using t h4 by simp
  show ?thesis using h1 h2 h3 h4 h5 h6 len by blast
qed



text \<open>
  C6: in one pass of the MGGA branch, the derivative of \<open>nelec[idm]\<close> is what it was
  before, so \<open>den\<close> adds to the value of the electron count and nothing to its
  derivative, while \<open>excsum[idm]\<close> grows by \<open>dot(den, exc)\<close> in value and by the
  derivative of that product, by the product rule in \<open>den\<close> and \<open>exc\<close>, in derivative.
\<close>

theorem mgga_body_stop_grad:
  assumes "snd (mgga_body ni idm b (nelec, excsum)) = Inr (comps, e, den, nelec', excsum')"
  shows "tangent (nelec' ! idm) = tangent (nelec ! idm)
       \<and> primal (nelec' ! idm) = primal (nelec ! idm) + (\<Sum>d\<leftarrow>den. primal d)
       \<and> primal (excsum' ! idm)
           = primal (excsum ! idm) + (\<Sum>(d, x)\<leftarrow>zip den e. primal d * primal x)
       \<and> tangent (excsum' ! idm)
           = tangent (excsum ! idm)
             + (\<Sum>(d, x)\<leftarrow>zip den e. tangent d * primal x + primal d * tangent x)"
  using mgga_body_Inr [OF assms]
  by (simp add: primal_sum_list tangent_sum_list comp_def case_prod_unfold)

text \<open>
  C6 on a block of two points whose densities have the derivatives 1 and 0: the electron
  count goes from \<open>(5, 7)\<close> to \<open>(12, 7)\<close>, the energy from \<open>(0, 0)\<close> to \<open>(25, 3)\<close>.
\<close>

theorem mgga_body_stop_grad_witness:
  "snd (mgga_body ni_minimal 0 (grid_block [Dual 1 1, Dual 2 0] [Dual 1 0, Dual 3 0])
          ([Dual 5 7], [0]))
     = Inr (([Dual 1 1, Dual 2 0], [Dual 1 1, Dual 2 0], [Dual 1 1, Dual 2 0], [Dual 1 1, Dual 2 0]),
            [Dual 1 2, Dual 4 0], [Dual 1 1, Dual 6 0], [Dual 12 7], [Dual 25 3])
   \<and> tangent ([Dual 12 7] ! 0) = tangent ([Dual 5 7] ! 0)
   \<and> tangent ([Dual 25 3] ! 0)
       = tangent ([0] ! 0)
         + (\<Sum>(d, x)\<leftarrow>zip [Dual 1 1, Dual 6 0] [Dual 1 2, Dual 4 0].
              tangent d * primal x + primal d * tangent x)"
proof -
  have h: "snd (mgga_body ni_minimal 0 (grid_block [Dual 1 1, Dual 2 0] [Dual 1 0, Dual 3 0])
          ([Dual 5 7], [0]))
     = Inr (([Dual 1 1, Dual 2 0], [Dual 1 1, Dual 2 0], [Dual 1 1, Dual 2 0], [Dual 1 1, Dual 2 0]),
            [Dual 1 2, Dual 4 0], [Dual 1 1, Dual 6 0], [Dual 12 7], [Dual 25 3])"
    by (simp add: numint_eval)
  show ?thesis using mgga_body_stop_grad [OF h] h by blast
qed

end
